theory Spec2Isabelle
  imports Main
begin

section \<open>JavaScript values\<close>

text \<open>
  The client in \<^verbatim>\<open>services/api.js\<close> is dynamically typed: the token, the user ids, the
  filter values and the decoded response bodies are arbitrary JavaScript values. They are
  modelled as plain data. A number is an integer (the ids, limits and offsets of the
  console are integers; fractional numbers, \<^verbatim>\<open>NaN\<close> and integers that a double cannot
  hold are outside the model). A string is a list of bytes, read as UTF-8. An object is the
  list of its own enumerable properties in the order \<^verbatim>\<open>Object.entries\<close> yields them.
\<close>

datatype jsval =
    JUndefined
  | JNull
  | JBool bool
  | JNum int
  | JStr string
  | JArr "jsval list"
  | JObj "(string \<times> jsval) list"

text \<open>ToBoolean, as used by \<^verbatim>\<open>if (token)\<close> and \<^verbatim>\<open>if (data.access_token)\<close>.\<close>

fun truthy :: "jsval \<Rightarrow> bool" where
  "truthy JUndefined = False"
| "truthy JNull = False"
| "truthy (JBool b) = b"
| "truthy (JNum n) = (n \<noteq> 0)"
| "truthy (JStr s) = (s \<noteq> [])"
| "truthy (JArr xs) = True"
| "truthy (JObj kvs) = True"

text \<open>Decimal rendering of a number, as in \<^verbatim>\<open>`${response.status}`\<close> and \<^verbatim>\<open>(50).toString()\<close>.\<close>

definition digit :: "nat \<Rightarrow> char" where
  "digit d = ''0123456789'' ! d"

fun dec :: "nat \<Rightarrow> string" where
  "dec n = (if n < 10 then [digit n] else dec (n div 10) @ [digit (n mod 10)])"

definition number_toString :: "int \<Rightarrow> string" where
  "number_toString n = (if n < 0 then CHR ''-'' # dec (nat (- n)) else dec (nat n))"

text \<open>\<^verbatim>\<open>Array.prototype.join\<close> with a separator.\<close>

fun join :: "string \<Rightarrow> string list \<Rightarrow> string" where
  "join sep [] = []"
| "join sep [x] = x"
| "join sep (x # y # ys) = x @ sep @ join sep (y # ys)"

text \<open>
  ToString on plain data: what a template literal \<^verbatim>\<open>`${v}`\<close>, \<^verbatim>\<open>localStorage.setItem\<close> and
  \<^verbatim>\<open>v.toString()\<close> produce. An array joins its elements with commas, \<^verbatim>\<open>null\<close> and
  \<^verbatim>\<open>undefined\<close> elements giving the empty string; a plain object gives
  \<^verbatim>\<open>[object Object]\<close>.
\<close>

fun js_toString :: "jsval \<Rightarrow> string" where
  "js_toString JUndefined = ''undefined''"
| "js_toString JNull = ''null''"
| "js_toString (JBool b) = (if b then ''true'' else ''false'')"
| "js_toString (JNum n) = number_toString n"
| "js_toString (JStr s) = s"
| "js_toString (JArr xs) =
     join '','' (map (\<lambda>x. if x = JNull \<or> x = JUndefined then [] else js_toString x) xs)"
| "js_toString (JObj kvs) = ''[object Object]''"

section \<open>Platform functions\<close>

subsection \<open>JSON.stringify\<close>

definition hex_lower :: "nat \<Rightarrow> char" where
  "hex_lower d = ''0123456789abcdef'' ! d"

definition json_escape_char :: "char \<Rightarrow> string" where
  "json_escape_char c =
     (if c = CHR ''\"'' then [CHR 0x5C, CHR ''\"'']
      else if c = CHR 0x5C then [CHR 0x5C, CHR 0x5C]
      else if c = CHR 0x08 then [CHR 0x5C, CHR ''b'']
      else if c = CHR 0x0C then [CHR 0x5C, CHR ''f'']
      else if c = CHR 0x0A then [CHR 0x5C, CHR ''n'']
      else if c = CHR 0x0D then [CHR 0x5C, CHR ''r'']
      else if c = CHR 0x09 then [CHR 0x5C, CHR ''t'']
      else if of_char c < (32::nat)
        then [CHR 0x5C, CHR ''u'', CHR ''0'', CHR ''0'',
              hex_lower (of_char c div 16), hex_lower (of_char c mod 16)]
      else [c])"

definition json_quote :: "string \<Rightarrow> string" where
  "json_quote s = [CHR ''\"''] @ concat (map json_escape_char s) @ [CHR ''\"'']"

text \<open>
  \<^verbatim>\<open>JSON.stringify(v)\<close>: \<open>None\<close> is the result \<^verbatim>\<open>undefined\<close> (no text at all). Inside an
  array \<^verbatim>\<open>undefined\<close> is written \<^verbatim>\<open>null\<close>; inside an object a property whose value is
  \<^verbatim>\<open>undefined\<close> is left out.
\<close>

fun JSON_stringify :: "jsval \<Rightarrow> string option" where
  "JSON_stringify JUndefined = None"
| "JSON_stringify JNull = Some ''null''"
| "JSON_stringify (JBool b) = Some (if b then ''true'' else ''false'')"
| "JSON_stringify (JNum n) = Some (number_toString n)"
| "JSON_stringify (JStr s) = Some (json_quote s)"
| "JSON_stringify (JArr xs) =
     Some (''['' @ join '','' (map (\<lambda>x. case JSON_stringify x of None \<Rightarrow> ''null'' | Some t \<Rightarrow> t) xs)
           @ '']'')"
| "JSON_stringify (JObj kvs) =
     Some (''{'' @ join '',''
             (concat (map (\<lambda>(k, v). case JSON_stringify v of
                                         None \<Rightarrow> []
                                       | Some t \<Rightarrow> [json_quote k @ '':'' @ t]) kvs))
           @ ''}'')"

subsection \<open>URLSearchParams\<close>

text \<open>
  A \<^verbatim>\<open>URLSearchParams\<close> object is the list of its name/value pairs; \<^verbatim>\<open>append\<close> adds a
  pair at the end. \<^verbatim>\<open>toString\<close> is the application/x-www-form-urlencoded serialiser:
  alphanumerics and \<^verbatim>\<open>* - . _\<close> stay, a space becomes \<^verbatim>\<open>+\<close>, every other byte becomes
  \<^verbatim>\<open>%XX\<close>; name and value are joined by \<^verbatim>\<open>=\<close> and the pairs by \<^verbatim>\<open>&\<close>.
\<close>

definition hex_upper :: "nat \<Rightarrow> char" where
  "hex_upper d = ''0123456789ABCDEF'' ! d"

definition url_safe :: "char \<Rightarrow> bool" where
  "url_safe c \<longleftrightarrow>
     c \<in> set ''ABCDEFGHIJKLMNOPQRSTUVWXYZabcdefghijklmnopqrstuvwxyz0123456789*-._''"

definition form_encode_char :: "char \<Rightarrow> string" where
  "form_encode_char c =
     (if url_safe c then [c]
      else if c = CHR '' '' then ''+''
      else [CHR ''%'', hex_upper (of_char c div 16), hex_upper (of_char c mod 16)])"

definition form_encode :: "string \<Rightarrow> string" where
  "form_encode s = concat (map form_encode_char s)"

definition URLSearchParams_append ::
  "string \<Rightarrow> string \<Rightarrow> (string \<times> string) list \<Rightarrow> (string \<times> string) list" where
  "URLSearchParams_append name val queryParams = queryParams @ [(name, val)]"

definition URLSearchParams_toString :: "(string \<times> string) list \<Rightarrow> string" where
  "URLSearchParams_toString queryParams =
     join ''&'' (map (\<lambda>(name, val). form_encode name @ ''='' @ form_encode val) queryParams)"

text \<open>
  Reading a query string back, as \<^verbatim>\<open>new URLSearchParams(text)\<close> and any backend do: the
  text is split at \<^verbatim>\<open>&\<close>, empty pieces are dropped, each piece is split at its first
  \<^verbatim>\<open>=\<close>, and in the name and the value \<^verbatim>\<open>+\<close> becomes a space and \<^verbatim>\<open>%XX\<close> the byte
  it names. This is the sense in which a query string contains an entry.
\<close>

fun split_on :: "char \<Rightarrow> string \<Rightarrow> string list" where
  "split_on sep [] = [[]]"
| "split_on sep (c # cs) =
     (if c = sep then [] # split_on sep cs
      else (c # hd (split_on sep cs)) # tl (split_on sep cs))"

definition hex_value :: "char \<Rightarrow> nat option" where
  "hex_value c =
     (let n = of_char c :: nat in
      if 48 \<le> n \<and> n \<le> 57 then Some (n - 48)
      else if 65 \<le> n \<and> n \<le> 70 then Some (n - 55)
      else if 97 \<le> n \<and> n \<le> 102 then Some (n - 87)
      else None)"

fun percent_decode :: "string \<Rightarrow> string" where
  "percent_decode (c # h # l # cs) =
     (case (c = CHR ''%'', hex_value h, hex_value l) of
        (True, Some a, Some b) \<Rightarrow> char_of (16 * a + b) # percent_decode cs
      | _ \<Rightarrow> c # percent_decode (h # l # cs))"
| "percent_decode cs = cs"

definition plus_to_space :: "string \<Rightarrow> string" where
  "plus_to_space s = map (\<lambda>c. if c = CHR ''+'' then CHR '' '' else c) s"

definition parse_pair :: "string \<Rightarrow> string \<times> string" where
  "parse_pair sq =
     (percent_decode (plus_to_space (takeWhile (\<lambda>c. c \<noteq> CHR ''='') sq)),
      percent_decode (plus_to_space (drop 1 (dropWhile (\<lambda>c. c \<noteq> CHR ''='') sq))))"

definition URLSearchParams_parse :: "string \<Rightarrow> (string \<times> string) list" where
  "URLSearchParams_parse q = map parse_pair (filter (\<lambda>sq. sq \<noteq> []) (split_on CHR ''&'' q))"

subsection \<open>fetch, Response, console\<close>

text \<open>
  The second argument of \<^verbatim>\<open>fetch\<close>, and the \<^verbatim>\<open>options\<close> argument of \<^verbatim>\<open>request\<close>: an
  object whose keys may be absent (\<open>None\<close>). The headers are a mapping from header
  names to values. Other keys of the init object are copied by the client unchanged
  and are not modelled.
\<close>

record options =
  http_method :: "string option"
  body :: "string option"
  headers :: "(string \<rightharpoonup> string) option"

text \<open>Reading one header of an init object; an absent \<^verbatim>\<open>headers\<close> key has no headers.\<close>

definition header :: "options \<Rightarrow> string \<Rightarrow> string option" where
  "header cfg name = (case headers cfg of None \<Rightarrow> None | Some h \<Rightarrow> h name)"

text \<open>
  A response carries its status code and what \<^verbatim>\<open>response.json()\<close> would give:
  the decoded body, or \<open>None\<close> when the body is not JSON and the call rejects.
  \<^verbatim>\<open>response.ok\<close> is true for the statuses 200 to 299.
\<close>

record response =
  status :: nat
  json :: "jsval option"

definition ok :: "response \<Rightarrow> bool" where
  "ok r \<longleftrightarrow> 200 \<le> status r \<and> status r \<le> 299"

text \<open>
  \<^verbatim>\<open>fetch\<close> either rejects (the call could not complete; the string is the cause) or
  resolves with a response. The backend is a parameter: it decides the outcome of a call
  from the URL and the init object.
\<close>

datatype fetch_result = Rejected string | Resolved response

type_synonym backend = "string \<Rightarrow> options \<Rightarrow> fetch_result"

text \<open>
  What a call can throw: \<^verbatim>\<open>new Error(message)\<close>, the rejection of \<^verbatim>\<open>fetch\<close>, the
  rejection of \<^verbatim>\<open>response.json()\<close>, and the TypeError of a property read on \<^verbatim>\<open>null\<close>.
\<close>

datatype js_error = Error string | FetchFailed string | SyntaxError | TypeError

text \<open>The platform calls a run makes, in order.\<close>

datatype event =
    Fetch string options
  | ReadJson
  | ConsoleError string js_error

section \<open>The API service\<close>

text \<open>
  The state a call can read and write: the field \<^verbatim>\<open>this.token\<close> of the service object,
  \<^verbatim>\<open>window.localStorage\<close>, and the log of platform calls made so far.
\<close>

record state =
  token :: jsval
  localStorage :: "string \<rightharpoonup> string"
  trace :: "event list"

definition API_BASE_URL :: string where
  "API_BASE_URL = ''/api''"

text \<open>\<^verbatim>\<open>localStorage.getItem\<close> gives \<^verbatim>\<open>null\<close> for a missing key.\<close>

definition getItem :: "(string \<rightharpoonup> string) \<Rightarrow> string \<Rightarrow> jsval" where
  "getItem store key = (case store key of None \<Rightarrow> JNull | Some v \<Rightarrow> JStr v)"

text \<open>The constructor: a new service object over the given storage.\<close>

definition constructor :: "(string \<rightharpoonup> string) \<Rightarrow> state" where
  "constructor store = \<lparr>token = getItem store ''authToken'', localStorage = store, trace = []\<rparr>"

definition setToken :: "jsval \<Rightarrow> state \<Rightarrow> state" where
  "setToken tok s =
     (let s1 = s\<lparr>token := tok\<rparr>
      in if truthy tok
         then s1\<lparr>localStorage := (localStorage s1)(''authToken'' \<mapsto> js_toString tok)\<rparr>
         else s1\<lparr>localStorage := (localStorage s1)(''authToken'' := None)\<rparr>)"

text \<open>
  The init object \<^verbatim>\<open>config\<close> of \<^verbatim>\<open>request\<close>. The object literal first sets \<^verbatim>\<open>headers\<close>
  to the default merged with \<^verbatim>\<open>options.headers\<close>, then spreads \<^verbatim>\<open>options\<close> over it: a
  \<^verbatim>\<open>headers\<close> key of \<^verbatim>\<open>options\<close> replaces the merged value. After that the
  Authorization header is assigned when the token is truthy.
\<close>

definition merged_headers :: "options \<Rightarrow> (string \<rightharpoonup> string)" where
  "merged_headers opts =
     [''Content-Type'' \<mapsto> ''application/json'']
       ++ (case headers opts of None \<Rightarrow> Map.empty | Some h \<Rightarrow> h)"

definition spread_options :: "(string \<rightharpoonup> string) \<Rightarrow> options \<Rightarrow> options" where
  "spread_options hdrs opts =
     \<lparr>http_method = http_method opts, body = body opts,
      headers = (case headers opts of None \<Rightarrow> Some hdrs | Some h \<Rightarrow> Some h)\<rparr>"

definition set_Authorization :: "jsval \<Rightarrow> options \<Rightarrow> options" where
  "set_Authorization tok cfg =
     cfg\<lparr>headers := map_option (\<lambda>h. h(''Authorization'' \<mapsto> ''Bearer '' @ js_toString tok))
                        (headers cfg)\<rparr>"

definition config :: "jsval \<Rightarrow> options \<Rightarrow> options" where
  "config tok opts =
     (let cfg = spread_options (merged_headers opts) opts
      in if truthy tok then set_Authorization tok cfg else cfg)"

text \<open>The \<^verbatim>\<open>catch\<close> block of \<^verbatim>\<open>request\<close>: log, then throw the same error again.\<close>

definition log_and_rethrow :: "js_error \<Rightarrow> state \<Rightarrow> (js_error + jsval) \<times> state" where
  "log_and_rethrow e s = (Inl e, s\<lparr>trace := trace s @ [ConsoleError ''API request failed:'' e]\<rparr>)"

definition request :: "backend \<Rightarrow> string \<Rightarrow> options \<Rightarrow> state \<Rightarrow> (js_error + jsval) \<times> state" where
  "request net endpoint opts s =
     (let url = API_BASE_URL @ endpoint;
          cfg = config (token s) opts;
          s1 = s\<lparr>trace := trace s @ [Fetch url cfg]\<rparr>
      in case net url cfg of
           Rejected cause \<Rightarrow> log_and_rethrow (FetchFailed cause) s1
         | Resolved resp \<Rightarrow>
             if \<not> ok resp
             then log_and_rethrow (Error (''HTTP error! status: '' @ dec (status resp))) s1
             else (let s2 = s1\<lparr>trace := trace s1 @ [ReadJson]\<rparr>
                   in case json resp of
                        None \<Rightarrow> log_and_rethrow SyntaxError s2
                      | Some data \<Rightarrow> (Inr data, s2)))"

text \<open>A call of \<^verbatim>\<open>request\<close> with one argument: \<^verbatim>\<open>options\<close> defaults to \<^verbatim>\<open>{}\<close>.\<close>

definition no_options :: options where
  "no_options = \<lparr>http_method = None, body = None, headers = None\<rparr>"

text \<open>
  \<^verbatim>\<open>data.access_token\<close>: a TypeError on \<^verbatim>\<open>null\<close> and \<^verbatim>\<open>undefined\<close>, the property of an
  object, and \<^verbatim>\<open>undefined\<close> on every other value (no primitive and no array has a
  property of that name).
\<close>

fun access_token :: "jsval \<Rightarrow> js_error + jsval" where
  "access_token JNull = Inl TypeError"
| "access_token JUndefined = Inl TypeError"
| "access_token (JObj kvs) =
     (case map_of kvs ''access_token'' of None \<Rightarrow> Inr JUndefined | Some v \<Rightarrow> Inr v)"
| "access_token v = Inr JUndefined"

text \<open>The second argument of the \<^verbatim>\<open>request\<close> call in \<^verbatim>\<open>login\<close>.\<close>

definition login_options :: "jsval \<Rightarrow> jsval \<Rightarrow> options" where
  "login_options username password =
     \<lparr>http_method = Some ''POST'',
      body = JSON_stringify (JObj [(''username'', username), (''password'', password)]),
      headers = None\<rparr>"

definition login :: "backend \<Rightarrow> jsval \<Rightarrow> jsval \<Rightarrow> state \<Rightarrow> (js_error + jsval) \<times> state" where
  "login net username password s =
     (case request net ''/auth/login'' (login_options username password) s of
        (Inl e, s1) \<Rightarrow> (Inl e, s1)
      | (Inr data, s1) \<Rightarrow>
          (case access_token data of
             Inl e \<Rightarrow> (Inl e, s1)
           | Inr tok \<Rightarrow> (Inr data, if truthy tok then setToken tok s1 else s1)))"

text \<open>The second argument of the \<^verbatim>\<open>request\<close> call in \<^verbatim>\<open>logout\<close>.\<close>

definition logout_options :: options where
  "logout_options = \<lparr>http_method = Some ''POST'', body = None, headers = None\<rparr>"

definition logout :: "backend \<Rightarrow> state \<Rightarrow> (js_error + jsval) \<times> state" where
  "logout net s =
     (case request net ''/auth/logout'' logout_options s of
        (Inl e, s1) \<Rightarrow> (Inl e, s1)
      | (Inr data, s1) \<Rightarrow> (Inr JUndefined, setToken JNull s1))"

definition getCurrentUser :: "backend \<Rightarrow> state \<Rightarrow> (js_error + jsval) \<times> state" where
  "getCurrentUser net s = request net ''/auth/me'' no_options s"

text \<open>
  The \<^verbatim>\<open>forEach\<close> body of \<^verbatim>\<open>getUsers\<close>, and the loop over \<^verbatim>\<open>Object.entries(params)\<close> as a
  fold from the empty \<^verbatim>\<open>URLSearchParams\<close>.
\<close>

definition append_entry ::
  "string \<times> jsval \<Rightarrow> (string \<times> string) list \<Rightarrow> (string \<times> string) list" where
  "append_entry = (\<lambda>(key, val) queryParams.
     if val \<noteq> JNull \<and> val \<noteq> JUndefined \<and> val \<noteq> JStr []
     then URLSearchParams_append key (js_toString val) queryParams
     else queryParams)"

definition queryParams :: "(string \<times> jsval) list \<Rightarrow> (string \<times> string) list" where
  "queryParams params = fold append_entry params []"

definition getUsers ::
  "backend \<Rightarrow> (string \<times> jsval) list \<Rightarrow> state \<Rightarrow> (js_error + jsval) \<times> state" where
  "getUsers net params s =
     request net (''/users/?'' @ URLSearchParams_toString (queryParams params)) no_options s"

definition createUser :: "backend \<Rightarrow> jsval \<Rightarrow> state \<Rightarrow> (js_error + jsval) \<times> state" where
  "createUser net userData s =
     request net ''/users/''
       \<lparr>http_method = Some ''POST'', body = JSON_stringify userData, headers = None\<rparr> s"

definition updateUserUsername ::
  "backend \<Rightarrow> jsval \<Rightarrow> jsval \<Rightarrow> state \<Rightarrow> (js_error + jsval) \<times> state" where
  "updateUserUsername net userId newUsername s =
     request net (''/users/'' @ js_toString userId @ ''/username'')
       \<lparr>http_method = Some ''PUT'',
        body = JSON_stringify (JObj [(''user_id'', userId), (''new_username'', newUsername)]),
        headers = None\<rparr> s"

definition updateUserRole ::
  "backend \<Rightarrow> jsval \<Rightarrow> jsval \<Rightarrow> state \<Rightarrow> (js_error + jsval) \<times> state" where
  "updateUserRole net userId newRole s =
     request net (''/users/'' @ js_toString userId @ ''/role'')
       \<lparr>http_method = Some ''PUT'',
        body = JSON_stringify (JObj [(''user_id'', userId), (''new_role'', newRole)]),
        headers = None\<rparr> s"

definition updateUserPassword ::
  "backend \<Rightarrow> jsval \<Rightarrow> jsval \<Rightarrow> state \<Rightarrow> (js_error + jsval) \<times> state" where
  "updateUserPassword net userId newPassword s =
     request net (''/users/'' @ js_toString userId @ ''/password'')
       \<lparr>http_method = Some ''PUT'',
        body = JSON_stringify (JObj [(''user_id'', userId), (''new_password'', newPassword)]),
        headers = None\<rparr> s"

definition deactivateUser :: "backend \<Rightarrow> jsval \<Rightarrow> state \<Rightarrow> (js_error + jsval) \<times> state" where
  "deactivateUser net userId s =
     request net (''/users/'' @ js_toString userId @ ''/deactivate'')
       \<lparr>http_method = Some ''POST'', body = None, headers = None\<rparr> s"

definition activateUser :: "backend \<Rightarrow> jsval \<Rightarrow> state \<Rightarrow> (js_error + jsval) \<times> state" where
  "activateUser net userId s =
     request net (''/users/'' @ js_toString userId @ ''/activate'')
       \<lparr>http_method = Some ''POST'', body = None, headers = None\<rparr> s"

definition deleteUser :: "backend \<Rightarrow> jsval \<Rightarrow> state \<Rightarrow> (js_error + jsval) \<times> state" where
  "deleteUser net userId s =
     request net (''/users/'' @ js_toString userId)
       \<lparr>http_method = Some ''DELETE'', body = None, headers = None\<rparr> s"

section \<open>Observations and example backends\<close>

text \<open>The calls of \<^verbatim>\<open>fetch\<close> in a log, in order: the requests that were issued.\<close>

fun fetches :: "event list \<Rightarrow> (string \<times> options) list" where
  "fetches [] = []"
| "fetches (Fetch url cfg # es) = (url, cfg) # fetches es"
| "fetches (ReadJson # es) = fetches es"
| "fetches (ConsoleError msg e # es) = fetches es"

text \<open>A backend that cannot be reached, and one that answers every call with a given response.\<close>

definition backend_down :: backend where
  "backend_down url cfg = Rejected ''Failed to fetch''"

definition backend_reply :: "response \<Rightarrow> backend" where
  "backend_reply resp url cfg = Resolved resp"

declare dec.simps [simp del]

section \<open>Properties of the request builder and the transport\<close>

lemma fetches_append: "fetches (xs @ ys) = fetches xs @ fetches ys"
  by (induction xs rule: fetches.induct) simp_all

text \<open>No path through \<^verbatim>\<open>request\<close> writes the token or the storage.\<close>

lemma request_token [simp]: "token (snd (request net endpoint opts s)) = token s"
  by (simp add: request_def log_and_rethrow_def Let_def split: fetch_result.split option.split)

lemma request_localStorage [simp]:
  "localStorage (snd (request net endpoint opts s)) = localStorage s"
  by (simp add: request_def log_and_rethrow_def Let_def split: fetch_result.split option.split)

text \<open>Every path through \<^verbatim>\<open>request\<close> calls \<^verbatim>\<open>fetch\<close> once, with the URL and the init object it built.\<close>

lemma request_fetches:
  "fetches (trace (snd (request net endpoint opts s)))
     = fetches (trace s) @ [(API_BASE_URL @ endpoint, config (token s) opts)]"
  by (simp add: request_def log_and_rethrow_def Let_def fetches_append
        split: fetch_result.split option.split)

text \<open>The init object, by whether the caller passed a \<^verbatim>\<open>headers\<close> key.\<close>

lemma config_no_headers:
  "headers opts = None \<Longrightarrow>
   config tok opts =
     \<lparr>http_method = http_method opts, body = body opts,
      headers = Some (if truthy tok
                      then [''Content-Type'' \<mapsto> ''application/json'',
                            ''Authorization'' \<mapsto> ''Bearer '' @ js_toString tok]
                      else [''Content-Type'' \<mapsto> ''application/json''])\<rparr>"
  by (simp add: config_def spread_options_def merged_headers_def set_Authorization_def Let_def)

lemma config_caller_headers:
  "headers opts = Some h \<Longrightarrow>
   config tok opts =
     \<lparr>http_method = http_method opts, body = body opts,
      headers = Some (if truthy tok
                      then h(''Authorization'' \<mapsto> ''Bearer '' @ js_toString tok)
                      else h)\<rparr>"
  by (simp add: config_def spread_options_def set_Authorization_def Let_def)

lemma header_config_truthy:
  "truthy tok \<Longrightarrow>
   header (config tok opts) ''Authorization'' = Some (''Bearer '' @ js_toString tok)"
  by (cases "headers opts") (simp_all add: config_no_headers config_caller_headers header_def)

lemma header_config_falsy:
  "\<not> truthy tok \<Longrightarrow>
   header (config tok opts) ''Authorization'' = header opts ''Authorization''"
  by (cases "headers opts") (simp_all add: config_no_headers config_caller_headers header_def)

text \<open>
  With a \<^verbatim>\<open>headers\<close> key in \<^verbatim>\<open>options\<close> the default Content-Type is gone: the final
  header is whatever the caller's mapping holds under that name.
\<close>

lemma header_config_Content_Type:
  "headers opts = Some h \<Longrightarrow> header (config tok opts) ''Content-Type'' = h ''Content-Type''"
  by (simp add: config_caller_headers header_def)

text \<open>The outcomes of \<^verbatim>\<open>request\<close>, by what the backend did.\<close>

lemma request_succeeds:
  "net (API_BASE_URL @ endpoint) (config (token s) opts) = Resolved resp \<Longrightarrow>
   ok resp \<Longrightarrow> json resp = Some data \<Longrightarrow>
   fst (request net endpoint opts s) = Inr data"
  by (simp add: request_def Let_def)

lemma request_rejected:
  "net (API_BASE_URL @ endpoint) (config (token s) opts) = Rejected cause \<Longrightarrow>
   fst (request net endpoint opts s) = Inl (FetchFailed cause)"
  by (simp add: request_def log_and_rethrow_def Let_def)

lemma request_not_ok:
  "net (API_BASE_URL @ endpoint) (config (token s) opts) = Resolved resp \<Longrightarrow>
   \<not> ok resp \<Longrightarrow>
   request net endpoint opts s =
     (Inl (Error (''HTTP error! status: '' @ dec (status resp))),
      s\<lparr>trace := trace s @ [Fetch (API_BASE_URL @ endpoint) (config (token s) opts),
                             ConsoleError ''API request failed:''
                               (Error (''HTTP error! status: '' @ dec (status resp)))]\<rparr>)"
  by (simp add: request_def log_and_rethrow_def Let_def)

lemma request_not_json:
  "net (API_BASE_URL @ endpoint) (config (token s) opts) = Resolved resp \<Longrightarrow>
   ok resp \<Longrightarrow> json resp = None \<Longrightarrow>
   fst (request net endpoint opts s) = Inl SyntaxError"
  by (simp add: request_def log_and_rethrow_def Let_def)

section \<open>Properties of the session\<close>

lemma setToken_token [simp]: "token (setToken tok s) = tok"
  by (simp add: setToken_def Let_def)

lemma setToken_trace [simp]: "trace (setToken tok s) = trace s"
  by (simp add: setToken_def Let_def)

lemma setToken_localStorage:
  "localStorage (setToken tok s) =
     (if truthy tok then (localStorage s)(''authToken'' \<mapsto> js_toString tok)
      else (localStorage s)(''authToken'' := None))"
  by (simp add: setToken_def Let_def)

lemma constructor_token:
  "token (constructor store) = (case store ''authToken'' of None \<Rightarrow> JNull | Some v \<Rightarrow> JStr v)"
  by (simp add: constructor_def getItem_def)

lemma login_options_headers [simp]: "headers (login_options username password) = None"
  by (simp add: login_options_def)

text \<open>A truthy \<^verbatim>\<open>data.access_token\<close> is a property the decoded object really has.\<close>

lemma access_token_truthy:
  "access_token data = Inr tok \<Longrightarrow> truthy tok \<Longrightarrow>
   \<exists>kvs. data = JObj kvs \<and> map_of kvs ''access_token'' = Some tok"
  by (cases data) (auto split: option.splits)

text \<open>
  On every value other than \<^verbatim>\<open>null\<close> and \<^verbatim>\<open>undefined\<close> that is not an object with the
  key, the read gives \<^verbatim>\<open>undefined\<close> and does not throw.
\<close>

lemma access_token_lacking:
  "data \<noteq> JNull \<Longrightarrow> data \<noteq> JUndefined \<Longrightarrow>
   (\<forall>kvs. data = JObj kvs \<longrightarrow> map_of kvs ''access_token'' = None) \<Longrightarrow>
   access_token data = Inr JUndefined"
  by (cases data) simp_all

lemma access_token_missing:
  "map_of kvs ''access_token'' = None \<Longrightarrow> access_token (JObj kvs) = Inr JUndefined"
  by simp

text \<open>
  Whenever \<^verbatim>\<open>request\<close> fails, \<^verbatim>\<open>login\<close> and \<^verbatim>\<open>logout\<close> fail with the same error and write
  nothing: neither has a handler around the call.
\<close>

lemma login_request_fails:
  "fst (request net ''/auth/login'' (login_options username password) s) = Inl e \<Longrightarrow>
   login net username password s
     = (Inl e, snd (request net ''/auth/login'' (login_options username password) s))"
  by (cases "request net ''/auth/login'' (login_options username password) s")
     (simp add: login_def)

lemma logout_request_fails:
  "fst (request net ''/auth/logout'' logout_options s) = Inl e \<Longrightarrow>
   logout net s = (Inl e, snd (request net ''/auth/logout'' logout_options s))"
  by (cases "request net ''/auth/logout'' logout_options s") (simp add: logout_def)

text \<open>A body that is the JSON value \<^verbatim>\<open>null\<close> makes \<^verbatim>\<open>login\<close> throw at the property read.\<close>

lemma login_null_body:
  "net (API_BASE_URL @ ''/auth/login'') (config (token s) (login_options username password))
     = Resolved resp \<Longrightarrow>
   ok resp \<Longrightarrow> json resp = Some JNull \<Longrightarrow>
   fst (login net username password s) = Inl TypeError"
  by (simp add: login_def request_def Let_def)

section \<open>Properties of the query string\<close>

text \<open>The loop of \<^verbatim>\<open>getUsers\<close> keeps the entries that pass its test, in order.\<close>

lemma fold_append_entry:
  "fold append_entry params acc =
     acc @ map (\<lambda>(key, val). (key, js_toString val))
             (filter (\<lambda>(key, val). val \<noteq> JNull \<and> val \<noteq> JUndefined \<and> val \<noteq> JStr []) params)"
  by (induction params arbitrary: acc)
     (auto simp add: append_entry_def URLSearchParams_append_def)

lemma form_encode_url_safe: "list_all url_safe s \<Longrightarrow> form_encode s = s"
  by (induction s) (simp_all add: form_encode_def form_encode_char_def)

lemma URLSearchParams_toString_url_safe:
  assumes "list_all (\<lambda>(name, val). list_all url_safe name \<and> list_all url_safe val) ps"
  shows "URLSearchParams_toString ps = join ''&'' (map (\<lambda>(name, val). name @ ''='' @ val) ps)"
proof -
  from assms have "map (\<lambda>(name, val). form_encode name @ ''='' @ form_encode val) ps
                     = map (\<lambda>(name, val). name @ ''='' @ val) ps"
    by (induction ps) (auto simp add: form_encode_url_safe)
  then show ?thesis
    by (simp only: URLSearchParams_toString_def)
qed

text \<open>
  The serialiser loses nothing: reading the serialised pairs back gives the pairs. The
  escaped text has no \<^verbatim>\<open>&\<close> and no \<^verbatim>\<open>=\<close> of its own, and every escape decodes to the byte
  it was made from.
\<close>

lemma below_16_cases:
  "d < (16::nat) \<Longrightarrow>
   d = 0 \<or> d = 1 \<or> d = 2 \<or> d = 3 \<or> d = 4 \<or> d = 5 \<or> d = 6 \<or> d = 7 \<or> d = 8 \<or> d = 9
   \<or> d = 10 \<or> d = 11 \<or> d = 12 \<or> d = 13 \<or> d = 14 \<or> d = 15"
  by arith

lemma hex_value_hex_upper: "d < 16 \<Longrightarrow> hex_value (hex_upper d) = Some d"
  by (drule below_16_cases) (elim disjE, simp_all add: hex_value_def hex_upper_def)

lemma hex_upper_plain:
  "d < 16 \<Longrightarrow> hex_upper d \<notin> {CHR ''+'', CHR ''&'', CHR ''=''}"
  by (drule below_16_cases) (elim disjE, simp_all add: hex_upper_def)

lemma of_char_nibbles: "of_char c div 16 < (16::nat)" "of_char c mod 16 < (16::nat)"
proof -
  have "of_char c < (16::nat) * 16"
    using nat_of_char_less_256 [of c] by simp
  then show "of_char c div 16 < (16::nat)"
    by (rule less_mult_imp_div_less)
  show "of_char c mod 16 < (16::nat)"
    by simp
qed

lemma url_safe_plain: "url_safe c \<Longrightarrow> c \<notin> {CHR ''+'', CHR ''&'', CHR ''='', CHR ''%''}"
  by (auto simp add: url_safe_def)

lemma form_encode_char_no_separator:
  "x \<in> set (form_encode_char c) \<Longrightarrow> x \<noteq> CHR ''&'' \<and> x \<noteq> CHR ''=''"
  using hex_upper_plain [OF of_char_nibbles(1), of c] hex_upper_plain [OF of_char_nibbles(2), of c]
        url_safe_plain [of c]
  by (auto simp add: form_encode_char_def split: if_splits)

lemma form_encode_no_separator:
  "CHR ''&'' \<notin> set (form_encode s) \<and> CHR ''='' \<notin> set (form_encode s)"
  using form_encode_char_no_separator by (auto simp add: form_encode_def)

lemma percent_decode_plain:
  "c \<noteq> CHR ''%'' \<Longrightarrow> percent_decode (c # cs) = c # percent_decode cs"
  by (cases "(c # cs)" rule: percent_decode.cases) auto

lemma percent_decode_escape:
  "hex_value h = Some a \<Longrightarrow> hex_value l = Some b \<Longrightarrow>
   percent_decode (CHR ''%'' # h # l # cs) = char_of (16 * a + b) # percent_decode cs"
  by simp

lemma decode_form_encode_char:
  "percent_decode (plus_to_space (form_encode_char c @ cs))
     = c # percent_decode (plus_to_space cs)"
proof (cases "url_safe c")
  case True
  then show ?thesis
    using url_safe_plain [of c]
    by (simp add: form_encode_char_def plus_to_space_def percent_decode_plain)
next
  case False
  show ?thesis
  proof (cases "c = CHR '' ''")
    case True
    with False show ?thesis
      by (simp add: form_encode_char_def plus_to_space_def percent_decode_plain)
  next
    case space: False
    let ?n = "of_char c :: nat"
    have hi: "?n div 16 < 16" and lo: "?n mod 16 < 16"
      by (rule of_char_nibbles)+
    have "percent_decode (plus_to_space (form_encode_char c @ cs))
            = percent_decode (CHR ''%'' # hex_upper (?n div 16) # hex_upper (?n mod 16)
                                # plus_to_space cs)"
      using False space hex_upper_plain [OF hi] hex_upper_plain [OF lo]
      by (simp add: form_encode_char_def plus_to_space_def)
    also have "\<dots> = char_of (16 * (?n div 16) + ?n mod 16) # percent_decode (plus_to_space cs)"
      by (rule percent_decode_escape) (simp_all add: hex_value_hex_upper hi lo)
    also have "char_of (16 * (?n div 16) + ?n mod 16) = c"
      by simp
    finally show ?thesis .
  qed
qed

lemma decode_form_encode: "percent_decode (plus_to_space (form_encode s)) = s"
proof (induction s)
  case Nil
  then show ?case by (simp add: form_encode_def plus_to_space_def)
next
  case (Cons c s)
  have "form_encode (c # s) = form_encode_char c @ form_encode s"
    by (simp add: form_encode_def)
  with Cons show ?case
    by (simp add: decode_form_encode_char)
qed

lemma split_on_no_separator: "sep \<notin> set x \<Longrightarrow> split_on sep x = [x]"
  by (induction x) auto

lemma split_on_append:
  "sep \<notin> set x \<Longrightarrow> split_on sep (x @ sep # rest) = x # split_on sep rest"
  by (induction x) auto

lemma split_on_join:
  "xs \<noteq> [] \<Longrightarrow> list_all (\<lambda>x. sep \<notin> set x) xs \<Longrightarrow> split_on sep (join [sep] xs) = xs"
  by (induction "[sep]" xs rule: join.induct)
     (simp_all add: split_on_no_separator split_on_append)

lemma parse_pair_encoded:
  "parse_pair (form_encode name @ ''='' @ form_encode val) = (name, val)"
proof -
  have plain: "x \<noteq> CHR ''=''" if "x \<in> set (form_encode name)" for x
    using that form_encode_no_separator [of name] by auto
  have "takeWhile (\<lambda>c. c \<noteq> CHR ''='') (form_encode name @ ''='' @ form_encode val)
          = form_encode name"
    by (simp add: takeWhile_append2 plain)
  moreover have "dropWhile (\<lambda>c. c \<noteq> CHR ''='') (form_encode name @ ''='' @ form_encode val)
          = ''='' @ form_encode val"
    by (simp add: dropWhile_append2 plain)
  ultimately show ?thesis
    by (simp add: parse_pair_def decode_form_encode)
qed

lemma URLSearchParams_parse_toString: "URLSearchParams_parse (URLSearchParams_toString ps) = ps"
proof (cases ps)
  case Nil
  then show ?thesis
    by (simp add: URLSearchParams_parse_def URLSearchParams_toString_def)
next
  case (Cons p ps')
  let ?enc = "\<lambda>(name, val). form_encode name @ ''='' @ form_encode val"
  have plain: "list_all (\<lambda>x. CHR ''&'' \<notin> set x) (map ?enc ps)"
    using form_encode_no_separator by (auto simp add: list_all_iff)
  have nonempty: "filter (\<lambda>sq. sq \<noteq> []) (map ?enc ps) = map ?enc ps"
    by (auto simp add: filter_id_conv)
  from Cons have "map ?enc ps \<noteq> []"
    by simp
  then have "split_on CHR ''&'' (join ''&'' (map ?enc ps)) = map ?enc ps"
    using plain by (rule split_on_join)
  then have "URLSearchParams_parse (URLSearchParams_toString ps) = map parse_pair (map ?enc ps)"
    by (simp only: URLSearchParams_parse_def URLSearchParams_toString_def nonempty)
  also have "\<dots> = ps"
    by (induction ps) (auto simp add: parse_pair_encoded [simplified])
  finally show ?thesis .
qed

section \<open>The claims\<close>

text \<open>
  C1 (as amended). \<^verbatim>\<open>logout\<close> issues exactly one request, a POST to the logout
  endpoint. When that call succeeds (the backend answers with a status from 200 to 299
  and a JSON body) the token in memory becomes \<^verbatim>\<open>null\<close> and the storage entry
  \<^verbatim>\<open>authToken\<close> is removed. When the call fails (the backend cannot be reached, the status
  is outside 200 to 299, or the body is not JSON) \<^verbatim>\<open>logout\<close> fails with the very error of
  the call (the rejection of \<^verbatim>\<open>fetch\<close>, the error that names the status, or the
  rejection of \<^verbatim>\<open>response.json()\<close>), and the token and the storage are what they were:
  \<^verbatim>\<open>setToken(null)\<close> stands after the awaited call, outside any handler.
\<close>

theorem logout_clears_token_when_call_succeeds:
  "fetches (trace (snd (logout net s)))
     = fetches (trace s) @ [(''/api/auth/logout'', config (token s) logout_options)]
   \<and> http_method (config (token s) logout_options) = Some ''POST''
   \<and> (case net ''/api/auth/logout'' (config (token s) logout_options) of
        Rejected cause \<Rightarrow>
          fst (logout net s) = Inl (FetchFailed cause)
          \<and> token (snd (logout net s)) = token s
          \<and> localStorage (snd (logout net s)) = localStorage s
      | Resolved resp \<Rightarrow>
          if \<not> ok resp
          then fst (logout net s) = Inl (Error (''HTTP error! status: '' @ dec (status resp)))
               \<and> token (snd (logout net s)) = token s
               \<and> localStorage (snd (logout net s)) = localStorage s
          else (case json resp of
                  None \<Rightarrow>
                    fst (logout net s) = Inl SyntaxError
                    \<and> token (snd (logout net s)) = token s
                    \<and> localStorage (snd (logout net s)) = localStorage s
                | Some data \<Rightarrow>
                    fst (logout net s) = Inr JUndefined
                    \<and> token (snd (logout net s)) = JNull
                    \<and> localStorage (snd (logout net s))
                        = (localStorage s)(''authToken'' := None)))
   \<and> fst (logout net s)
       = (case fst (request net ''/auth/logout'' logout_options s) of
            Inl e \<Rightarrow> Inl e
          | Inr data \<Rightarrow> Inr JUndefined)"
proof (intro conjI)
  have "fetches (trace (snd (logout net s)))
          = fetches (trace (snd (request net ''/auth/logout'' logout_options s)))"
    by (simp add: logout_def split: prod.split sum.split)
  then show "fetches (trace (snd (logout net s)))
     = fetches (trace s) @ [(''/api/auth/logout'', config (token s) logout_options)]"
    by (simp add: request_fetches API_BASE_URL_def)
  show "http_method (config (token s) logout_options) = Some ''POST''"
    by (simp add: config_no_headers logout_options_def)
  show "case net ''/api/auth/logout'' (config (token s) logout_options) of
        Rejected cause \<Rightarrow>
          fst (logout net s) = Inl (FetchFailed cause)
          \<and> token (snd (logout net s)) = token s
          \<and> localStorage (snd (logout net s)) = localStorage s
      | Resolved resp \<Rightarrow>
          if \<not> ok resp
          then fst (logout net s) = Inl (Error (''HTTP error! status: '' @ dec (status resp)))
               \<and> token (snd (logout net s)) = token s
               \<and> localStorage (snd (logout net s)) = localStorage s
          else (case json resp of
                  None \<Rightarrow>
                    fst (logout net s) = Inl SyntaxError
                    \<and> token (snd (logout net s)) = token s
                    \<and> localStorage (snd (logout net s)) = localStorage s
                | Some data \<Rightarrow>
                    fst (logout net s) = Inr JUndefined
                    \<and> token (snd (logout net s)) = JNull
                    \<and> localStorage (snd (logout net s))
                        = (localStorage s)(''authToken'' := None))"
    by (simp add: logout_def request_def log_and_rethrow_def Let_def API_BASE_URL_def
          setToken_localStorage split: fetch_result.split option.split)
  show "fst (logout net s)
       = (case fst (request net ''/auth/logout'' logout_options s) of
            Inl e \<Rightarrow> Inl e
          | Inr data \<Rightarrow> Inr JUndefined)"
    by (cases "request net ''/auth/logout'' logout_options s")
       (simp add: logout_def split: sum.split)
qed

text \<open>
  The amended C1 at a signed-in session: a logout call answered with 200 clears the
  token, and one answered with 401 fails with the error of that status.
\<close>

theorem logout_clears_token_when_call_succeeds_witness:
  "token (constructor [''authToken'' \<mapsto> ''tok123'']) = JStr ''tok123''
   \<and> token (snd (logout (backend_reply \<lparr>status = 200, json = Some (JObj [])\<rparr>)
                   (constructor [''authToken'' \<mapsto> ''tok123'']))) = JNull
   \<and> localStorage (snd (logout (backend_reply \<lparr>status = 200, json = Some (JObj [])\<rparr>)
                   (constructor [''authToken'' \<mapsto> ''tok123''])))
        ''authToken'' = None
   \<and> fst (logout (backend_reply \<lparr>status = 401, json = Some (JObj [])\<rparr>)
              (constructor [''authToken'' \<mapsto> ''tok123'']))
       = Inl (Error ''HTTP error! status: 401'')
   \<and> token (snd (logout (backend_reply \<lparr>status = 401, json = Some (JObj [])\<rparr>)
                   (constructor [''authToken'' \<mapsto> ''tok123''])))
       = JStr ''tok123''"
  using logout_clears_token_when_call_succeeds
          [of "backend_reply \<lparr>status = 200, json = Some (JObj [])\<rparr>"
              "constructor [''authToken'' \<mapsto> ''tok123'']"]
        logout_clears_token_when_call_succeeds
          [of "backend_reply \<lparr>status = 401, json = Some (JObj [])\<rparr>"
              "constructor [''authToken'' \<mapsto> ''tok123'']"]
  by (simp add: backend_reply_def ok_def constructor_def getItem_def dec.simps digit_def)

text \<open>
  C1 as stated fails: with the token \<^verbatim>\<open>tok123\<close> restored from the storage and the
  backend out of reach, \<^verbatim>\<open>logout\<close> fails and the token is still there, in memory and in
  the storage.
\<close>

theorem logout_failed_call_keeps_token:
  "isl (fst (logout backend_down (constructor [''authToken'' \<mapsto> ''tok123''])))
   \<and> token (snd (logout backend_down (constructor [''authToken'' \<mapsto> ''tok123''])))
       = JStr ''tok123''
   \<and> localStorage (snd (logout backend_down (constructor [''authToken'' \<mapsto> ''tok123''])))
        ''authToken'' = Some ''tok123''"
  by (simp add: logout_def request_def backend_down_def log_and_rethrow_def Let_def
        constructor_def getItem_def)

text \<open>
  C2 (the code at the failing input). A caller passes the extra header
  \<^verbatim>\<open>X-Trace: 1\<close> and no Content-Type. The object literal of \<^verbatim>\<open>request\<close> merges the
  default Content-Type with the caller's headers, and the spread of \<^verbatim>\<open>options\<close> that
  follows replaces the merged mapping by the caller's own: the request that is sent has
  the caller's header and no Content-Type.
\<close>

theorem request_caller_headers_lose_Content_Type:
  "map (\<lambda>(url, cfg). (url, header cfg ''X-Trace'', header cfg ''Content-Type''))
     (fetches (trace (snd (request backend_down ''/users/''
        \<lparr>http_method = None, body = None, headers = Some [''X-Trace'' \<mapsto> ''1'']\<rparr>
        (constructor Map.empty)))))
   = [(''/api/users/'', Some ''1'', None)]"
  by (simp add: request_fetches constructor_def getItem_def API_BASE_URL_def
        config_caller_headers header_def)

text \<open>
  C3. For every non-empty token \<open>t\<close> in the session and every \<^verbatim>\<open>options\<close>, with or
  without a \<^verbatim>\<open>headers\<close> mapping and whatever that mapping holds under
  \<^verbatim>\<open>Authorization\<close>, the one request that \<^verbatim>\<open>request\<close> sends carries the header
  \<^verbatim>\<open>Authorization\<close> equal to \<^verbatim>\<open>Bearer\<close>, a space and \<open>t\<close>.
\<close>

theorem request_Authorization_overrides_caller:
  assumes "token s = JStr t" and "t \<noteq> []"
  shows "fetches (trace (snd (request net endpoint opts s)))
           = fetches (trace s) @ [(API_BASE_URL @ endpoint, config (JStr t) opts)]
         \<and> header (config (JStr t) opts) ''Authorization'' = Some (''Bearer '' @ t)"
proof -
  from assms(2) have "truthy (JStr t)"
    by simp
  then have "header (config (JStr t) opts) ''Authorization''
               = Some (''Bearer '' @ js_toString (JStr t))"
    by (rule header_config_truthy)
  with assms(1) show ?thesis
    using request_fetches [of net endpoint opts s] by simp
qed

text \<open>C3 at a caller that sets a Basic \<^verbatim>\<open>Authorization\<close> header of its own.\<close>

theorem request_Authorization_overrides_caller_witness:
  "token (constructor [''authToken'' \<mapsto> ''tok123'']) = JStr ''tok123''
   \<and> ''tok123'' \<noteq> []
   \<and> header (config (JStr ''tok123'')
               \<lparr>http_method = Some ''GET'', body = None,
                headers = Some [''Authorization'' \<mapsto> ''Basic Zm9vOmJhcg=='']\<rparr>)
        ''Authorization'' = Some ''Bearer tok123''"
  using request_Authorization_overrides_caller
          [of "constructor [''authToken'' \<mapsto> ''tok123'']" "''tok123''" backend_down "''/auth/me''"
              "\<lparr>http_method = Some ''GET'', body = None,
                headers = Some [''Authorization'' \<mapsto> ''Basic Zm9vOmJhcg=='']\<rparr>"]
  by (simp add: constructor_token)

text \<open>
  C4 (as amended). For every username and password: when the backend answers the login
  call with a status from 200 to 299 and a JSON body other than \<^verbatim>\<open>null\<close> that lacks an
  \<^verbatim>\<open>access_token\<close> field (an object without that key, such as one holding only an
  \<^verbatim>\<open>error\<close> field, or an array, a string, a number or a boolean), \<^verbatim>\<open>login\<close> returns that
  body without raising, and the token and the storage are unchanged. And the token is set
  only from such a field: whenever \<^verbatim>\<open>login\<close> changes the token or the storage, the backend
  answered with a success status and an object whose \<^verbatim>\<open>access_token\<close> field is truthy,
  that body is returned and the token is that field.
\<close>

theorem login_without_access_token_returns_body:
  "(net (API_BASE_URL @ ''/auth/login'') (config (token s) (login_options username password))
        = Resolved resp
      \<and> ok resp \<and> json resp = Some data
      \<and> data \<noteq> JNull \<and> data \<noteq> JUndefined
      \<and> (\<forall>kvs. data = JObj kvs \<longrightarrow> map_of kvs ''access_token'' = None)
    \<longrightarrow> fst (login net username password s) = Inr data
        \<and> token (snd (login net username password s)) = token s
        \<and> localStorage (snd (login net username password s)) = localStorage s)
   \<and> (token (snd (login net username password s)) \<noteq> token s
        \<or> localStorage (snd (login net username password s)) \<noteq> localStorage s
    \<longrightarrow> (\<exists>resp kvs tok.
           net (API_BASE_URL @ ''/auth/login'') (config (token s) (login_options username password))
             = Resolved resp
           \<and> ok resp \<and> json resp = Some (JObj kvs)
           \<and> map_of kvs ''access_token'' = Some tok \<and> truthy tok
           \<and> fst (login net username password s) = Inr (JObj kvs)
           \<and> token (snd (login net username password s)) = tok))"
proof (intro conjI impI)
  assume h: "net (API_BASE_URL @ ''/auth/login'') (config (token s) (login_options username password))
        = Resolved resp
      \<and> ok resp \<and> json resp = Some data
      \<and> data \<noteq> JNull \<and> data \<noteq> JUndefined
      \<and> (\<forall>kvs. data = JObj kvs \<longrightarrow> map_of kvs ''access_token'' = None)"
  then have r: "request net ''/auth/login'' (login_options username password) s
           = (Inr data, snd (request net ''/auth/login'' (login_options username password) s))"
    using request_succeeds [of net "''/auth/login''" s "login_options username password" resp data]
    by (simp add: prod_eq_iff)
  from h have a: "access_token data = Inr JUndefined"
    by (intro access_token_lacking) simp_all
  show "fst (login net username password s) = Inr data"
    unfolding login_def by (subst r) (simp add: a)
  show "token (snd (login net username password s)) = token s"
    unfolding login_def by (subst r) (simp add: a)
  show "localStorage (snd (login net username password s)) = localStorage s"
    unfolding login_def by (subst r) (simp add: a)
next
  assume changed: "token (snd (login net username password s)) \<noteq> token s
        \<or> localStorage (snd (login net username password s)) \<noteq> localStorage s"
  let ?url = "API_BASE_URL @ ''/auth/login''"
  let ?cfg = "config (token s) (login_options username password)"
  let ?same = "token (snd (login net username password s)) = token s
        \<and> localStorage (snd (login net username password s)) = localStorage s"
  show "\<exists>resp kvs tok. net ?url ?cfg = Resolved resp
           \<and> ok resp \<and> json resp = Some (JObj kvs)
           \<and> map_of kvs ''access_token'' = Some tok \<and> truthy tok
           \<and> fst (login net username password s) = Inr (JObj kvs)
           \<and> token (snd (login net username password s)) = tok"
  proof (cases "net ?url ?cfg")
    case (Rejected cause)
    then have ?same
      by (simp add: login_def request_def log_and_rethrow_def Let_def)
    with changed show ?thesis by simp
  next
    case (Resolved resp)
    show ?thesis
    proof (cases "ok resp \<and> json resp \<noteq> None")
      case False
      with Resolved have ?same
        by (auto simp add: login_def request_def log_and_rethrow_def Let_def)
      with changed show ?thesis by simp
    next
      case True
      then obtain data where d: "ok resp" "json resp = Some data"
        by auto
      show ?thesis
      proof (cases "access_token data")
        case (Inl e)
        with Resolved d have ?same
          by (simp add: login_def request_def Let_def)
        with changed show ?thesis by simp
      next
        case (Inr tok)
        show ?thesis
        proof (cases "truthy tok")
          case False
          with Inr Resolved d have ?same
            by (simp add: login_def request_def Let_def)
          with changed show ?thesis by simp
        next
          case True
          with Inr obtain kvs where k: "data = JObj kvs" "map_of kvs ''access_token'' = Some tok"
            using access_token_truthy by blast
          from True Inr Resolved d have "fst (login net username password s) = Inr data
            \<and> token (snd (login net username password s)) = tok"
            by (simp add: login_def request_def Let_def)
          with Resolved d k True show ?thesis by blast
        qed
      qed
    qed
  qed
qed

text \<open>
  The amended C4 at the bad login of the specification (status 200, a body with only an \<^verbatim>\<open>error\<close>
  field, an anonymous session), and at a good login, where the token does change.
\<close>

theorem login_without_access_token_returns_body_witness:
  "backend_reply \<lparr>status = 200, json = Some (JObj [(''error'', JStr ''invalid credentials'')])\<rparr>
       (API_BASE_URL @ ''/auth/login'')
       (config (token (constructor Map.empty)) (login_options (JStr ''a'') (JStr ''bad'')))
     = Resolved \<lparr>status = 200, json = Some (JObj [(''error'', JStr ''invalid credentials'')])\<rparr>
   \<and> ok \<lparr>status = 200, json = Some (JObj [(''error'', JStr ''invalid credentials'')])\<rparr>
   \<and> map_of [(''error'', JStr ''invalid credentials'')] ''access_token'' = None
   \<and> fst (login (backend_reply \<lparr>status = 200, json = Some (JObj [(''error'', JStr ''invalid credentials'')])\<rparr>)
             (JStr ''a'') (JStr ''bad'') (constructor Map.empty))
       = Inr (JObj [(''error'', JStr ''invalid credentials'')])
   \<and> token (snd (login (backend_reply \<lparr>status = 200, json = Some (JObj [(''error'', JStr ''invalid credentials'')])\<rparr>)
             (JStr ''a'') (JStr ''bad'') (constructor Map.empty)))
       = JNull
   \<and> token (snd (login (backend_reply \<lparr>status = 200, json = Some (JObj [(''access_token'', JStr ''tok123'')])\<rparr>)
             (JStr ''a'') (JStr ''good'') (constructor Map.empty)))
       \<noteq> token (constructor Map.empty)
   \<and> token (snd (login (backend_reply \<lparr>status = 200, json = Some (JObj [(''access_token'', JStr ''tok123'')])\<rparr>)
             (JStr ''a'') (JStr ''good'') (constructor Map.empty)))
       = JStr ''tok123''"
  using login_without_access_token_returns_body
          [of "backend_reply \<lparr>status = 200, json = Some (JObj [(''error'', JStr ''invalid credentials'')])\<rparr>"
              "constructor Map.empty" "JStr ''a''" "JStr ''bad''"
              "\<lparr>status = 200, json = Some (JObj [(''error'', JStr ''invalid credentials'')])\<rparr>"
              "JObj [(''error'', JStr ''invalid credentials'')]"]
        login_without_access_token_returns_body
          [of "backend_reply \<lparr>status = 200, json = Some (JObj [(''access_token'', JStr ''tok123'')])\<rparr>"
              "constructor Map.empty" "JStr ''a''" "JStr ''good''"]
  by (simp add: backend_reply_def ok_def constructor_token login_def request_def Let_def)

text \<open>
  C4 as stated fails at the JSON body \<^verbatim>\<open>null\<close>: answered with status 200 and that body,
  which has no \<^verbatim>\<open>access_token\<close> field, \<^verbatim>\<open>login\<close> does not return the body; the read of
  \<^verbatim>\<open>data.access_token\<close> throws a TypeError.
\<close>

theorem login_null_body_raises:
  "ok \<lparr>status = 200, json = Some JNull\<rparr>
   \<and> fst (login (backend_reply \<lparr>status = 200, json = Some JNull\<rparr>)
             (JStr ''a'') (JStr ''bad'') (constructor Map.empty))
       = Inl TypeError"
  by (simp add: login_def request_def backend_reply_def ok_def Let_def)

text \<open>
  C5. For every filter mapping, the \<^verbatim>\<open>URLSearchParams\<close> that \<^verbatim>\<open>getUsers\<close> builds holds
  exactly the entries whose value is neither \<^verbatim>\<open>null\<close> nor \<^verbatim>\<open>undefined\<close> nor the empty
  string, in their order, each as the key and the value turned into a string; the one
  request that is sent goes to \<^verbatim>\<open>/api/users/?\<close> followed by the serialisation of these
  pairs; read back, that query string holds exactly these pairs; and where the keys and
  the values need no escaping, it is literally the pairs \<^verbatim>\<open>key=value\<close> joined by
  \<^verbatim>\<open>&\<close>.
\<close>

theorem getUsers_query_omits_empty_filters:
  "queryParams params =
     map (\<lambda>(key, val). (key, js_toString val))
       (filter (\<lambda>(key, val). val \<noteq> JNull \<and> val \<noteq> JUndefined \<and> val \<noteq> JStr []) params)
   \<and> fetches (trace (snd (getUsers net params s)))
       = fetches (trace s) @
         [(''/api/users/?'' @ URLSearchParams_toString (queryParams params),
           config (token s) no_options)]
   \<and> URLSearchParams_parse (URLSearchParams_toString (queryParams params)) = queryParams params
   \<and> (list_all (\<lambda>(name, val). list_all url_safe name \<and> list_all url_safe val) (queryParams params)
      \<longrightarrow> URLSearchParams_toString (queryParams params)
            = join ''&'' (map (\<lambda>(name, val). name @ ''='' @ val) (queryParams params)))"
  by (simp add: queryParams_def fold_append_entry getUsers_def request_fetches API_BASE_URL_def
        URLSearchParams_toString_url_safe URLSearchParams_parse_toString)

text \<open>
  C5 at the filters of the specification: \<^verbatim>\<open>is_active\<close> is left out, and the query
  string is \<^verbatim>\<open>role=ADMIN&limit=50&offset=0\<close>.
\<close>

theorem getUsers_query_omits_empty_filters_witness:
  "queryParams [(''is_active'', JStr []), (''role'', JStr ''ADMIN''),
                (''limit'', JNum 50), (''offset'', JNum 0)]
     = [(''role'', ''ADMIN''), (''limit'', ''50''), (''offset'', ''0'')]
   \<and> list_all (\<lambda>(name, val). list_all url_safe name \<and> list_all url_safe val)
        [(''role'', ''ADMIN''), (''limit'', ''50''), (''offset'', ''0'')]
   \<and> URLSearchParams_toString
        (queryParams [(''is_active'', JStr []), (''role'', JStr ''ADMIN''),
                      (''limit'', JNum 50), (''offset'', JNum 0)])
     = ''role=ADMIN&limit=50&offset=0''"
proof -
  let ?params = "[(''is_active'', JStr []), (''role'', JStr ''ADMIN''),
                  (''limit'', JNum 50), (''offset'', JNum 0)]"
  let ?kept = "[(''role'', ''ADMIN''), (''limit'', ''50''), (''offset'', ''0'')]"
  note t = getUsers_query_omits_empty_filters [of ?params backend_down "constructor Map.empty"]
  from t have q: "queryParams ?params = ?kept"
    by (simp add: number_toString_def dec.simps digit_def)
  have safe: "list_all (\<lambda>(name, val). list_all url_safe name \<and> list_all url_safe val) ?kept"
    by (simp add: url_safe_def)
  from t have "list_all (\<lambda>(name, val). list_all url_safe name \<and> list_all url_safe val)
                 (queryParams ?params)
               \<longrightarrow> URLSearchParams_toString (queryParams ?params)
                     = join ''&'' (map (\<lambda>(name, val). name @ ''='' @ val) (queryParams ?params))"
    by (rule conjunct2 [THEN conjunct2, THEN conjunct2])
  with safe have "URLSearchParams_toString (queryParams ?params)
                    = join ''&'' (map (\<lambda>(name, val). name @ ''='' @ val) ?kept)"
    by (simp only: q)
  then have "URLSearchParams_toString (queryParams ?params) = ''role=ADMIN&limit=50&offset=0''"
    by simp
  with q safe show ?thesis
    by (simp only: simp_thms)
qed

text \<open>
  C6. For every response whose status is below 200 or at least 300, \<^verbatim>\<open>request\<close> fails
  with \<^verbatim>\<open>Error\<close> whose message is \<^verbatim>\<open>HTTP error! status: \<close> followed by the status in
  decimal. The run calls \<^verbatim>\<open>fetch\<close>, then \<^verbatim>\<open>console.error\<close>, and nothing else: the body
  is not read, whatever it is.
\<close>

theorem request_fails_on_http_error_status:
  assumes "net (API_BASE_URL @ endpoint) (config (token s) opts) = Resolved resp"
      and "status resp < 200 \<or> 300 \<le> status resp"
  shows "request net endpoint opts s =
           (Inl (Error (''HTTP error! status: '' @ dec (status resp))),
            s\<lparr>trace := trace s @ [Fetch (API_BASE_URL @ endpoint) (config (token s) opts),
                                   ConsoleError ''API request failed:''
                                     (Error (''HTTP error! status: '' @ dec (status resp)))]\<rparr>)"
proof -
  from assms(2) have "\<not> ok resp"
    by (auto simp: ok_def)
  with assms(1) show ?thesis
    by (rule request_not_ok)
qed

text \<open>C6 at a 404 whose body is valid JSON.\<close>

theorem request_fails_on_http_error_status_witness:
  "backend_reply \<lparr>status = 404, json = Some (JObj [(''detail'', JStr ''Not Found'')])\<rparr>
       (API_BASE_URL @ ''/users/7'') (config (token (constructor Map.empty)) no_options)
     = Resolved \<lparr>status = 404, json = Some (JObj [(''detail'', JStr ''Not Found'')])\<rparr>
   \<and> (300::nat) \<le> 404
   \<and> fst (request (backend_reply \<lparr>status = 404, json = Some (JObj [(''detail'', JStr ''Not Found'')])\<rparr>)
             ''/users/7'' no_options (constructor Map.empty))
       = Inl (Error ''HTTP error! status: 404'')
   \<and> ReadJson \<notin> set (trace (snd (request
         (backend_reply \<lparr>status = 404, json = Some (JObj [(''detail'', JStr ''Not Found'')])\<rparr>)
         ''/users/7'' no_options (constructor Map.empty))))"
  using request_fails_on_http_error_status
          [of "backend_reply \<lparr>status = 404, json = Some (JObj [(''detail'', JStr ''Not Found'')])\<rparr>"
              "''/users/7''" "constructor Map.empty" no_options
              "\<lparr>status = 404, json = Some (JObj [(''detail'', JStr ''Not Found'')])\<rparr>"]
  by (simp add: backend_reply_def constructor_def dec.simps digit_def)

text \<open>
  C7 (as amended). For every value \<open>t\<close>, after \<^verbatim>\<open>setToken(t)\<close> the token in memory is
  exactly \<open>t\<close>; the two writes, to the field and to the storage, happen in the same call.
  When \<open>t\<close> is \<^verbatim>\<open>null\<close> or a non-empty string, a service object constructed afresh
  over that storage holds \<open>t\<close> as well. When \<open>t\<close> is falsy (the empty string among them)
  the storage entry is removed, so the fresh object holds \<^verbatim>\<open>null\<close>.
\<close>

theorem setToken_round_trip:
  "token (setToken t s) = t
   \<and> (t = JNull \<or> (\<exists>x. t = JStr x \<and> x \<noteq> [])
        \<longrightarrow> token (constructor (localStorage (setToken t s))) = t)
   \<and> (\<not> truthy t
        \<longrightarrow> localStorage (setToken t s) ''authToken'' = None
            \<and> token (constructor (localStorage (setToken t s))) = JNull)"
  by (auto simp add: setToken_localStorage constructor_token)

text \<open>The amended C7 at a token, at \<^verbatim>\<open>null\<close> and at the empty string.\<close>

theorem setToken_round_trip_witness:
  "token (constructor (localStorage (setToken (JStr ''tok123'') (constructor Map.empty))))
     = JStr ''tok123''
   \<and> token (constructor (localStorage (setToken JNull (constructor [''authToken'' \<mapsto> ''tok123'']))))
     = JNull
   \<and> \<not> truthy (JStr [])
   \<and> token (constructor (localStorage (setToken (JStr []) (constructor [''authToken'' \<mapsto> ''tok123'']))))
     = JNull"
  using setToken_round_trip [of "JStr ''tok123''" "constructor Map.empty"]
        setToken_round_trip [of JNull "constructor [''authToken'' \<mapsto> ''tok123'']"]
        setToken_round_trip [of "JStr []" "constructor [''authToken'' \<mapsto> ''tok123'']"]
  by simp

text \<open>
  C7 as stated fails at the empty string: after \<^verbatim>\<open>setToken('')\<close> the token in memory is
  the empty string, and a service object constructed afresh over the storage holds
  \<^verbatim>\<open>null\<close>.
\<close>

theorem setToken_empty_string_not_restored:
  "token (setToken (JStr []) (constructor Map.empty)) = JStr []
   \<and> token (constructor (localStorage (setToken (JStr []) (constructor Map.empty)))) = JNull"
  by (simp add: setToken_localStorage constructor_def getItem_def)

text \<open>
  C8. For every session state, backend and arguments, each of \<^verbatim>\<open>getUsers\<close>,
  \<^verbatim>\<open>createUser\<close>, \<^verbatim>\<open>updateUserUsername\<close>, \<^verbatim>\<open>updateUserRole\<close>, \<^verbatim>\<open>updateUserPassword\<close>,
  \<^verbatim>\<open>deactivateUser\<close>, \<^verbatim>\<open>activateUser\<close> and \<^verbatim>\<open>deleteUser\<close> (and \<^verbatim>\<open>getCurrentUser\<close>) leaves the
  token and the storage as they were, whether the call succeeds or fails. \<^verbatim>\<open>login\<close>
  leaves the token or sets it to a truthy value; \<^verbatim>\<open>logout\<close> leaves it or sets it to
  \<^verbatim>\<open>null\<close>.
\<close>

theorem crud_operations_keep_session:
  "(token (snd (getUsers net params s)) = token s
      \<and> localStorage (snd (getUsers net params s)) = localStorage s)
   \<and> (token (snd (createUser net userData s)) = token s
      \<and> localStorage (snd (createUser net userData s)) = localStorage s)
   \<and> (token (snd (updateUserUsername net userId newUsername s)) = token s
      \<and> localStorage (snd (updateUserUsername net userId newUsername s)) = localStorage s)
   \<and> (token (snd (updateUserRole net userId newRole s)) = token s
      \<and> localStorage (snd (updateUserRole net userId newRole s)) = localStorage s)
   \<and> (token (snd (updateUserPassword net userId newPassword s)) = token s
      \<and> localStorage (snd (updateUserPassword net userId newPassword s)) = localStorage s)
   \<and> (token (snd (deactivateUser net userId s)) = token s
      \<and> localStorage (snd (deactivateUser net userId s)) = localStorage s)
   \<and> (token (snd (activateUser net userId s)) = token s
      \<and> localStorage (snd (activateUser net userId s)) = localStorage s)
   \<and> (token (snd (deleteUser net userId s)) = token s
      \<and> localStorage (snd (deleteUser net userId s)) = localStorage s)
   \<and> (token (snd (getCurrentUser net s)) = token s
      \<and> localStorage (snd (getCurrentUser net s)) = localStorage s)
   \<and> (token (snd (login net username password s)) = token s
      \<or> truthy (token (snd (login net username password s))))
   \<and> (token (snd (logout net s)) = token s
      \<or> token (snd (logout net s)) = JNull)"
proof -
  have login: "token (snd (login net username password s)) = token s
      \<or> truthy (token (snd (login net username password s)))"
  proof (cases "request net ''/auth/login'' (login_options username password) s")
    case (Pair r s1)
    then have "token s1 = token s"
      using request_token [of net "''/auth/login''" "login_options username password" s] by simp
    with Pair show ?thesis
      by (simp add: login_def split: sum.split)
  qed
  have logout: "token (snd (logout net s)) = token s \<or> token (snd (logout net s)) = JNull"
  proof (cases "request net ''/auth/logout'' logout_options s")
    case (Pair r s1)
    then have "token s1 = token s"
      using request_token [of net "''/auth/logout''" logout_options s] by simp
    with Pair show ?thesis
      by (simp add: logout_def split: sum.split)
  qed
  show ?thesis
    by (simp add: getUsers_def createUser_def updateUserUsername_def updateUserRole_def
          updateUserPassword_def deactivateUser_def activateUser_def deleteUser_def
          getCurrentUser_def login logout)
qed

text \<open>
  C8 at a signed-in session: a delete that is answered with 500 and a role change that is
  answered with 200 both leave the token and the storage entry in place.
\<close>

theorem crud_operations_keep_session_witness:
  "token (snd (deleteUser (backend_reply \<lparr>status = 500, json = None\<rparr>) (JNum 42)
                 (constructor [''authToken'' \<mapsto> ''tok123''])))
     = JStr ''tok123''
   \<and> localStorage (snd (updateUserRole (backend_reply \<lparr>status = 200, json = Some (JObj [])\<rparr>)
                          (JNum 42) (JStr ''ADMIN'')
                          (constructor [''authToken'' \<mapsto> ''tok123''])))
        ''authToken''
     = Some ''tok123''"
  using crud_operations_keep_session
          [of "backend_reply \<lparr>status = 500, json = None\<rparr>" "[]"
              "constructor [''authToken'' \<mapsto> ''tok123'']"
              JNull "JNum 42" JNull JNull JNull JNull JNull]
        crud_operations_keep_session
          [of "backend_reply \<lparr>status = 200, json = Some (JObj [])\<rparr>" "[]"
              "constructor [''authToken'' \<mapsto> ''tok123'']"
              JNull "JNum 42" JNull "JStr ''ADMIN''" JNull JNull JNull]
  by (simp add: constructor_def getItem_def)

text \<open>
  C9. For every user id and every session state, \<^verbatim>\<open>deleteUser\<close> issues exactly one
  request: to \<^verbatim>\<open>/api/users/\<close> followed by the id, with the method DELETE and no body.
  Its headers are the JSON Content-Type and, when the token is truthy, \<^verbatim>\<open>Authorization\<close>
  with \<^verbatim>\<open>Bearer\<close>, a space and the token.
\<close>

theorem deleteUser_issues_one_DELETE:
  "fetches (trace (snd (deleteUser net userId s)))
     = fetches (trace s) @
       [(''/api/users/'' @ js_toString userId,
         \<lparr>http_method = Some ''DELETE'', body = None,
          headers = Some (if truthy (token s)
                          then [''Content-Type'' \<mapsto> ''application/json'',
                                ''Authorization'' \<mapsto> ''Bearer '' @ js_toString (token s)]
                          else [''Content-Type'' \<mapsto> ''application/json''])\<rparr>)]"
  by (simp add: deleteUser_def request_fetches config_no_headers API_BASE_URL_def)

text \<open>C9 at \<^verbatim>\<open>deleteUser(42)\<close> in a session with the token \<^verbatim>\<open>tok123\<close>.\<close>

theorem deleteUser_issues_one_DELETE_witness:
  "fetches (trace (snd (deleteUser backend_down (JNum 42)
                          (constructor [''authToken'' \<mapsto> ''tok123'']))))
     = [(''/api/users/42'',
         \<lparr>http_method = Some ''DELETE'', body = None,
          headers = Some [''Content-Type'' \<mapsto> ''application/json'',
                          ''Authorization'' \<mapsto> ''Bearer tok123'']\<rparr>)]"
  using deleteUser_issues_one_DELETE
          [of backend_down "JNum 42" "constructor [''authToken'' \<mapsto> ''tok123'']"]
  by (simp add: constructor_def getItem_def number_toString_def dec.simps digit_def)

text \<open>
  C10 (as amended). After \<^verbatim>\<open>setToken('')\<close> the token in memory is the empty string and
  the storage entry is removed. In every state whose token is the empty string,
  \<^verbatim>\<open>request\<close> adds no \<^verbatim>\<open>Authorization\<close> header: the one request it sends carries under
  that name exactly what the caller's \<^verbatim>\<open>options.headers\<close> holds there, and nothing when
  the caller passes no options; the token is still the empty string afterwards.
\<close>

theorem setToken_empty_is_anonymous:
  "token (setToken (JStr []) s) = JStr []
   \<and> localStorage (setToken (JStr []) s) ''authToken'' = None
   \<and> (token s' = JStr []
      \<longrightarrow> fetches (trace (snd (request net endpoint opts s')))
            = fetches (trace s') @ [(API_BASE_URL @ endpoint, config (JStr []) opts)]
          \<and> header (config (JStr []) opts) ''Authorization'' = header opts ''Authorization''
          \<and> token (snd (request net endpoint opts s')) = JStr [])
   \<and> header (config (JStr []) no_options) ''Authorization'' = None"
  by (simp add: setToken_localStorage request_fetches header_config_falsy)
     (simp add: header_def no_options_def)

text \<open>The amended C10 at \<^verbatim>\<open>getCurrentUser\<close> right after \<^verbatim>\<open>setToken('')\<close>.\<close>

theorem setToken_empty_is_anonymous_witness:
  "token (setToken (JStr []) (constructor [''authToken'' \<mapsto> ''tok123''])) = JStr []
   \<and> localStorage (setToken (JStr []) (constructor [''authToken'' \<mapsto> ''tok123''])) ''authToken''
       = None
   \<and> map (\<lambda>(url, cfg). (url, header cfg ''Authorization''))
       (fetches (trace (snd (getCurrentUser backend_down
          (setToken (JStr []) (constructor [''authToken'' \<mapsto> ''tok123'']))))))
     = [(''/api/auth/me'', None)]"
  using setToken_empty_is_anonymous
          [of "constructor [''authToken'' \<mapsto> ''tok123'']"
              "setToken (JStr []) (constructor [''authToken'' \<mapsto> ''tok123''])"
              backend_down "''/auth/me''" no_options]
  by (simp add: getCurrentUser_def constructor_def API_BASE_URL_def header_def no_options_def)

text \<open>
  C10 as stated fails: after \<^verbatim>\<open>setToken('')\<close>, a request whose caller passes an
  \<^verbatim>\<open>Authorization\<close> header of its own is sent with that header.
\<close>

theorem setToken_empty_caller_Authorization_is_sent:
  "token (setToken (JStr []) (constructor [''authToken'' \<mapsto> ''tok123''])) = JStr []
   \<and> map (\<lambda>(url, cfg). (url, header cfg ''Authorization''))
       (fetches (trace (snd (request backend_down ''/auth/me''
          \<lparr>http_method = None, body = None,
           headers = Some [''Authorization'' \<mapsto> ''Bearer forged'']\<rparr>
          (setToken (JStr []) (constructor [''authToken'' \<mapsto> ''tok123'']))))))
     = [(''/api/auth/me'', Some ''Bearer forged'')]"
  by (simp add: request_fetches constructor_def API_BASE_URL_def config_caller_headers header_def)

end
